theory Spec2Isabelle
  imports Complex_Main
begin

section \<open>JavaScript strings\<close>

text \<open>
  Strings are lists of characters. \<open>startsWith\<close> and \<open>includes_str\<close> model the
  methods of \<open>String.prototype\<close> of the same names: \<open>includes_str s p\<close> (the method \<open>includes\<close>) holds when
  \<open>p\<close> occurs in \<open>s\<close> as a contiguous run of characters, compared exactly
  (upper and lower case differ).
\<close>

fun startsWith :: "string \<Rightarrow> string \<Rightarrow> bool" where
  "startsWith s [] = True"
| "startsWith [] (p # ps) = False"
| "startsWith (c # cs) (p # ps) = (c = p \<and> startsWith cs ps)"

fun includes_str :: "string \<Rightarrow> string \<Rightarrow> bool" where
  "includes_str [] p = (p = [])"
| "includes_str (c # cs) p = (startsWith (c # cs) p \<or> includes_str cs p)"

section \<open>The chat endpoint: \<open>src/app/api/chat/route.ts\<close>\<close>

subsection \<open>Errors and responses\<close>

text \<open>
  The value caught by \<open>catch (error: any)\<close> is read through two properties only:
  \<open>error.message\<close> and \<open>error.status\<close>. \<open>js_error\<close> is a caught value on which the
  tests of the \<open>catch\<close> block can be made: its message is a string or is absent
  (\<open>undefined\<close> or \<open>null\<close>, here \<open>None\<close>), and so is its status, a number. Every
  \<open>Error\<close> object is of this kind, and so is a thrown string, number or boolean, whose
  two properties read \<open>undefined\<close>.
\<close>

record js_error =
  message :: "string option"
  status :: "int option"

text \<open>
  \<open>error.message?.includes(p)\<close>: the optional chain yields \<open>undefined\<close>, which is
  falsy, when there is no message.
\<close>

definition message_includes :: "js_error \<Rightarrow> string \<Rightarrow> bool" where
  "message_includes error p =
     (case message error of None \<Rightarrow> False | Some m \<Rightarrow> includes_str m p)"

text \<open>
  \<open>JSON.stringify\<close> of an object literal whose values are strings or \<open>undefined\<close>:
  the keys stay in the order written, and a key whose value is \<open>undefined\<close> is left out.
  The body of a response is kept as this list of members rather than as the serialised text.
\<close>

type_synonym json = "(string \<times> string) list"

fun JSON_stringify :: "(string \<times> string option) list \<Rightarrow> json" where
  "JSON_stringify [] = []"
| "JSON_stringify ((k, None) # props) = JSON_stringify props"
| "JSON_stringify ((k, Some v) # props) = (k, v) # JSON_stringify props"

text \<open>\<open>new Response(body, { status, headers })\<close>.\<close>

record response =
  body :: json
  http_status :: nat
  headers :: "(string \<times> string) list"

definition json_response :: "(string \<times> string option) list \<Rightarrow> nat \<Rightarrow> response" where
  "json_response props code =
     \<lparr>body = JSON_stringify props, http_status = code,
      headers = [(''Content-Type'', ''application/json'')]\<rparr>"

subsection \<open>The \<open>catch\<close> block of \<open>POST\<close>\<close>

text \<open>The tests of the block (lines 78 to 130), in their order, on a caught value that they can read.\<close>

definition POST_catch :: "js_error \<Rightarrow> response" where
  "POST_catch error =
     (if message_includes error ''quota'' \<or> message_includes error ''exceeded'' then
        json_response
          [(''error'', Some ''API quota exceeded. Please check your Google AI billing plan or try again later.''),
           (''type'', Some ''quota_exceeded'')] 429
      else if message_includes error ''rate limit'' \<or> status error = Some 429 then
        json_response
          [(''error'', Some ''Rate limit exceeded. Please wait a moment before sending another message.''),
           (''type'', Some ''rate_limit'')] 429
      else if message_includes error ''authentication'' \<or> status error = Some 401 then
        json_response
          [(''error'', Some ''Invalid API key. Please check your Google Gemini API key configuration.''),
           (''type'', Some ''auth_error'')] 401
      else
        json_response
          [(''error'', Some ''An unexpected error occurred. Please try again later.''),
           (''type'', Some ''generic_error''),
           (''details'', message error)] 500)"

subsection \<open>What can be thrown\<close>

text \<open>
  JavaScript throws any value, and the \<open>catch\<close> block reads \<open>error.message\<close> with no
  test of \<open>error\<close> itself; the optional chain guards only the call of \<open>includes\<close>
  against a message that is absent. So there are caught values on which the first test
  of the block (line 78) throws a \<open>TypeError\<close> of its own:
  \<^item> \<open>Nullish\<close>: \<open>null\<close> or \<open>undefined\<close> was thrown, and \<open>error.message\<close> cannot be read;
  \<^item> \<open>Unreadable\<close>: the message is present, is not a string and has no method
    \<open>includes\<close> (a number, say), and \<open>error.message?.includes\<close> is not a function.
  \<open>Readable\<close> is every other caught value. A message that brings an \<open>includes\<close> of its
  own (an array) is not modelled.
\<close>

datatype thrown = Nullish | Unreadable | Readable js_error

subsection \<open>\<open>POST\<close>\<close>

text \<open>
  What the handler does to the outside world, in the order it does it: the call of
  \<open>streamText\<close> (the request to the remote model provider, with the messages it is
  given) and the \<open>console.error\<close> of the \<open>catch\<close> block, which comes before its tests.
\<close>

datatype 'm effect = StreamText 'm | ConsoleError thrown

text \<open>
  The handler answers with the stream of the provider (\<open>result.toAIStreamResponse()\<close>) or
  with one of its own JSON responses; or it answers nothing: \<open>Rejects\<close> is the case in
  which the \<open>catch\<close> block itself throws, so that the promise of \<open>POST\<close> rejects and the
  exception reaches the caller of the handler.
\<close>

datatype 's reply = Stream 's | Json response | Rejects

definition catch_block :: "thrown \<Rightarrow> 's reply" where
  "catch_block error =
     (case error of
        Nullish \<Rightarrow> Rejects
      | Unreadable \<Rightarrow> Rejects
      | Readable e \<Rightarrow> Json (POST_catch e))"

text \<open>
  \<open>POST\<close> reads three things from its environment, which are its parameters here:
  \<^item> \<open>api_key\<close>: \<open>process.env.GOOGLE_GENERATIVE_AI_API_KEY\<close>, \<open>None\<close> when the variable
    is not set. \<open>!key\<close> holds for \<open>undefined\<close> and for the empty string.
  \<^item> \<open>req_json\<close>: the outcome of \<open>const { messages } = await req.json()\<close>, which is the
    first statement inside \<open>try\<close>: the messages, or the error thrown when the body
    is not JSON or has nothing to destructure. These errors are \<open>Error\<close> objects of the
    platform (\<open>SyntaxError\<close>, \<open>TypeError\<close>).
  \<^item> \<open>streamText\<close>: the outcome of the provider call on the messages, up to
    \<open>result.toAIStreamResponse()\<close>: a stream, or the value thrown, which comes from
    library code and can be any value. What fails once the stream has been returned is
    outside the handler and outside this model.
  The result is the reply together with the effects performed.
\<close>

definition POST ::
  "string option \<Rightarrow> (js_error + 'm) \<Rightarrow> ('m \<Rightarrow> thrown + 's) \<Rightarrow> 's reply \<times> 'm effect list" where
  "POST api_key req_json streamText =
     (case req_json of
        Inl error \<Rightarrow> (catch_block (Readable error), [ConsoleError (Readable error)])
      | Inr messages \<Rightarrow>
          if api_key = None \<or> api_key = Some [] then
            (Json (json_response
               [(''error'', Some ''API key not configured. Please add your Google Gemini API key to environment variables.'')]
               500), [])
          else
            (case streamText messages of
               Inl error \<Rightarrow> (catch_block error, [StreamText messages, ConsoleError error])
             | Inr result \<Rightarrow> (Stream result, [StreamText messages])))"

text \<open>Reading a member of a JSON body.\<close>

definition json_member :: "json \<Rightarrow> string \<Rightarrow> string option" where
  "json_member obj k = map_of obj k"

subsection \<open>The failure classification as the specification orders it\<close>

text \<open>
  The reference the handler is compared with, written from the specification: a list of
  rules, each a condition on the message and status of the upstream error with the HTTP
  status and the type it answers; the rules are tried in order and the first whose
  condition holds applies. When none does, the answer is 500 with type
  \<open>generic_error\<close> and the raw message as detail. An answer is the triple of HTTP status,
  type and detail.
\<close>

type_synonym classification = "nat \<times> string \<times> string option"

definition classification_rules :: "((string \<Rightarrow> int option \<Rightarrow> bool) \<times> nat \<times> string) list" where
  "classification_rules =
     [(\<lambda>m st. includes_str m ''quota'' \<or> includes_str m ''exceeded'', 429, ''quota_exceeded''),
      (\<lambda>m st. includes_str m ''rate limit'' \<or> st = Some 429, 429, ''rate_limit''),
      (\<lambda>m st. includes_str m ''authentication'' \<or> st = Some 401, 401, ''auth_error'')]"

definition failure_classification :: "string \<Rightarrow> int option \<Rightarrow> classification" where
  "failure_classification m st =
     (case find (\<lambda>rule. fst rule m st) classification_rules of
        Some (cond, code, ty) \<Rightarrow> (code, ty, None)
      | None \<Rightarrow> (500, ''generic_error'', Some m))"

text \<open>What a response of the handler says, as such a triple.\<close>

definition classification_of :: "response \<Rightarrow> nat \<times> string option \<times> string option" where
  "classification_of r =
     (http_status r, json_member (body r) ''type'', json_member (body r) ''details'')"

text \<open>The calls of the provider among the effects of a run.\<close>

fun network_calls :: "'m effect list \<Rightarrow> 'm list" where
  "network_calls [] = []"
| "network_calls (StreamText m # es) = m # network_calls es"
| "network_calls (ConsoleError e # es) = network_calls es"

section \<open>The tools\<close>

subsection \<open>\<open>weather\<close>\<close>

text \<open>
  A JavaScript number is a binary64 floating-point number, and each multiplication and
  addition gives the exact result rounded to the nearest such number, a tie going to
  the one whose last bit is 0. Numbers are modelled by the reals they denote, and the
  rounding is written out for the reals \<open>x\<close> with \<open>0 \<le> x < 128\<close>, which is where the
  tool computes. The numbers around \<open>x\<close> are the multiples of \<open>1 / 2 ^ k\<close>, where \<open>k\<close> is
  the least number from 46 on with \<open>2 ^ (52 - k) \<le> x\<close>, and 1074 for the subnormal
  numbers and 0.
\<close>

fun frac_bits :: "nat \<Rightarrow> nat \<Rightarrow> real \<Rightarrow> nat" where
  "frac_bits 0 k x = k"
| "frac_bits (Suc n) k x = (if 2 ^ 52 / 2 ^ k \<le> x then k else frac_bits n (Suc k) x)"

definition ulp :: "real \<Rightarrow> real" where
  "ulp x = 1 / 2 ^ frac_bits 1028 46 x"

definition round_ties_even :: "real \<Rightarrow> int" where
  "round_ties_even q =
     (if q - of_int \<lfloor>q\<rfloor> < 1 / 2 then \<lfloor>q\<rfloor>
      else if 1 / 2 < q - of_int \<lfloor>q\<rfloor> then \<lfloor>q\<rfloor> + 1
      else if even \<lfloor>q\<rfloor> then \<lfloor>q\<rfloor> else \<lfloor>q\<rfloor> + 1)"

definition binary64_round :: "real \<Rightarrow> real" where
  "binary64_round x = of_int (round_ties_even (x / ulp x)) * ulp x"

text \<open>The reals that are binary64 numbers: rounding leaves them as they are.\<close>

definition binary64 :: "real \<Rightarrow> bool" where
  "binary64 x = (binary64_round x = x)"

text \<open>
  \<open>Math.round\<close> gives the nearest integer, a half going upwards, and \<open>Math.floor\<close> the
  integer below; both are exact. \<open>Math.random()\<close> is a parameter of the model, once for
  each of its two calls: a binary64 number that is at least 0 and less than 1. Reading an
  array outside its bounds gives \<open>undefined\<close>, here \<open>None\<close>.
\<close>

definition Math_round :: "real \<Rightarrow> int" where
  "Math_round x = \<lfloor>x + 1 / 2\<rfloor>"

definition Math_floor :: "real \<Rightarrow> int" where
  "Math_floor x = \<lfloor>x\<rfloor>"

definition array_at :: "'a list \<Rightarrow> int \<Rightarrow> 'a option" where
  "array_at xs i = (if 0 \<le> i \<and> i < int (length xs) then Some (xs ! nat i) else None)"

record weather_report =
  location :: string
  temperature :: int
  description :: "string option"

definition weather :: "real \<Rightarrow> real \<Rightarrow> string \<Rightarrow> weather_report" where
  "weather random1 random2 loc =
     \<lparr>location = loc,
      temperature = Math_round (binary64_round (binary64_round (random1 * (90 - 32)) + 32)),
      description =
        array_at [''sunny'', ''cloudy'', ''rainy'', ''snowy'']
          (Math_floor (binary64_round (random2 * 4)))\<rparr>"

subsection \<open>\<open>calculator\<close>\<close>

text \<open>
  The tool builds the text of a function body around the expression, has the JavaScript
  engine compile and run it (\<open>Function(text)()\<close>), and catches whatever either step
  throws. The engine is the parameter \<open>Function\<close>: it maps the text to the value returned
  (\<open>Inr\<close>) or to the exception thrown (\<open>Inl\<close>). The tool answers \<open>{ result }\<close> or
  \<open>{ error }\<close>.
\<close>

datatype 'v calculator_result = Result 'v | Error string

definition function_body :: "string \<Rightarrow> string" where
  \<open>function_body expression = ''"use strict"; return ('' @ expression @ '')''\<close>

definition calculator :: "(string \<Rightarrow> 'e + 'v) \<Rightarrow> string \<Rightarrow> 'v calculator_result" where
  "calculator Function expression =
     (case Function (function_body expression) of
        Inr result \<Rightarrow> Result result
      | Inl error \<Rightarrow> Error ''Invalid mathematical expression'')"

subsection \<open>The JavaScript engine on integer arithmetic\<close>

text \<open>
  \<open>Function\<close> is the engine's, not the repository's. What ECMAScript fixes for it is
  written down here for a small family of function bodies only: the directive
  \<open>"use strict";\<close> and a \<open>return\<close> of a text made of spaces, decimal integer
  literals, the operators \<open>+\<close>, \<open>-\<close>, \<open>*\<close> (binary, and \<open>+\<close> and \<open>-\<close> also
  unary) and parentheses. \<open>js_arith\<close> gives \<open>Some\<close> outcome where this model speaks and
  \<open>None\<close> everywhere else: on any other character, on \<open>++\<close>, \<open>--\<close> and \<open>**\<close>
  (tokens of their own), on a literal with a leading zero, on more than 64 tokens, and
  as soon as a literal or an intermediate result leaves the integers that a JavaScript
  number holds exactly (magnitude at most \<open>2^53\<close>). The two zeros of JavaScript are one
  value here.
\<close>

datatype token = NUM int | PLUS | MINUS | STAR | LPAREN | RPAREN

definition is_digit :: "char \<Rightarrow> bool" where
  "is_digit c = (48 \<le> (of_char c :: nat) \<and> (of_char c :: nat) \<le> 57)"

fun decimal :: "int \<Rightarrow> string \<Rightarrow> int" where
  "decimal acc [] = acc"
| "decimal acc (d # ds) = decimal (10 * acc + (of_char d - 48)) ds"

fun punctuator :: "char \<Rightarrow> token option" where
  "punctuator c =
     (if c = CHR ''+'' then Some PLUS
      else if c = CHR ''-'' then Some MINUS
      else if c = CHR ''*'' then Some STAR
      else if c = CHR ''('' then Some LPAREN
      else if c = CHR '')'' then Some RPAREN
      else None)"

function tokenize :: "string \<Rightarrow> token list option" where
  "tokenize [] = Some []"
| "tokenize (c # cs) =
     (if c = CHR '' '' then tokenize cs
      else if is_digit c then
        (if c = CHR ''0'' \<and> takeWhile is_digit cs \<noteq> [] then None
         else map_option ((#) (NUM (decimal 0 (c # takeWhile is_digit cs))))
                (tokenize (dropWhile is_digit cs)))
      else if c \<in> {CHR ''+'', CHR ''-'', CHR ''*''} \<and> startsWith cs [c] then None
      else (case punctuator c of
              None \<Rightarrow> None
            | Some t \<Rightarrow> map_option ((#) t) (tokenize cs)))"
  by pat_completeness auto
termination
  by (relation "measure length") (auto simp: length_dropWhile_le less_Suc_eq_le)

definition safe :: "int \<Rightarrow> bool" where
  "safe v = (\<bar>v\<bar> \<le> 9007199254740992)"

text \<open>
  Parsing and evaluating in one pass. \<open>Value v r\<close>: the production read a prefix of the
  tokens, its value is \<open>v\<close> and \<open>r\<close> is what follows; \<open>Fails\<close>: the tokens are not
  what the production asks for; \<open>Unmodelled\<close>: outside the model (a number too large, or
  no fuel left).
\<close>

datatype parsed = Value int "token list" | Fails | Unmodelled

definition peek :: "token list \<Rightarrow> token option" where
  "peek ts = (case ts of [] \<Rightarrow> None | t # _ \<Rightarrow> Some t)"

definition and_then :: "parsed \<Rightarrow> (int \<Rightarrow> token list \<Rightarrow> parsed) \<Rightarrow> parsed" where
  "and_then p k = (case p of Value v r \<Rightarrow> k v r | Fails \<Rightarrow> Fails | Unmodelled \<Rightarrow> Unmodelled)"

definition number :: "int \<Rightarrow> token list \<Rightarrow> parsed" where
  "number v r = (if safe v then Value v r else Unmodelled)"

definition closing :: "int \<Rightarrow> token list \<Rightarrow> parsed" where
  "closing v r = (if peek r = Some RPAREN then Value v (tl r) else Fails)"

text \<open>
  The productions of the grammar, from the loosest binding to the tightest; the two
  \<open>Rest\<close> productions carry the value of the operands read so far, which makes the
  binary operators associate to the left.
\<close>

datatype production =
  Additive | AdditiveRest int | Multiplicative | MultiplicativeRest int | Unary | Primary

fun parse :: "nat \<Rightarrow> production \<Rightarrow> token list \<Rightarrow> parsed" where
  "parse 0 p ts = Unmodelled"
| "parse (Suc n) p ts =
     (case p of
        Additive \<Rightarrow>
          and_then (parse n Multiplicative ts) (\<lambda>v. parse n (AdditiveRest v))
      | AdditiveRest acc \<Rightarrow>
          if peek ts = Some PLUS then
            and_then (parse n Multiplicative (tl ts))
              (\<lambda>v r. and_then (number (acc + v) r) (\<lambda>w. parse n (AdditiveRest w)))
          else if peek ts = Some MINUS then
            and_then (parse n Multiplicative (tl ts))
              (\<lambda>v r. and_then (number (acc - v) r) (\<lambda>w. parse n (AdditiveRest w)))
          else Value acc ts
      | Multiplicative \<Rightarrow>
          and_then (parse n Unary ts) (\<lambda>v. parse n (MultiplicativeRest v))
      | MultiplicativeRest acc \<Rightarrow>
          if peek ts = Some STAR then
            and_then (parse n Unary (tl ts))
              (\<lambda>v r. and_then (number (acc * v) r) (\<lambda>w. parse n (MultiplicativeRest w)))
          else Value acc ts
      | Unary \<Rightarrow>
          if peek ts = Some PLUS then parse n Unary (tl ts)
          else if peek ts = Some MINUS then
            and_then (parse n Unary (tl ts)) (\<lambda>v r. Value (- v) r)
          else parse n Primary ts
      | Primary \<Rightarrow>
          (case peek ts of
             Some (NUM k) \<Rightarrow> number k (tl ts)
           | Some LPAREN \<Rightarrow> and_then (parse n Additive (tl ts)) closing
           | _ \<Rightarrow> Fails))"

text \<open>
  The outcome of compiling and calling the body. Tokens that do not form one expression
  up to the end of the body make the engine throw: either the text is no program at all
  (\<open>SyntaxError\<close>, at compilation), or what stands behind an operand is a parenthesis,
  which calls a number (\<open>TypeError\<close>, at the call). A \<open>return\<close> of nothing is not
  modelled.
\<close>

datatype outcome = Returns int | Throws

definition strip_prefix :: "string \<Rightarrow> string \<Rightarrow> string option" where
  "strip_prefix p s = (if startsWith s p then Some (drop (length p) s) else None)"

definition js_arith :: "string \<Rightarrow> outcome option" where
  \<open>js_arith src =
     (case strip_prefix ''"use strict"; return '' src of
        None \<Rightarrow> None
      | Some text \<Rightarrow>
          (case tokenize text of
             None \<Rightarrow> None
           | Some ts \<Rightarrow>
               if ts = [] \<or> 64 < length ts then None
               else
                 (case parse (6 * length ts + 6) Additive ts of
                    Value v [] \<Rightarrow> Some (Returns v)
                  | Value v (t # r) \<Rightarrow> Some Throws
                  | Fails \<Rightarrow> Some Throws
                  | Unmodelled \<Rightarrow> None)))\<close>

text \<open>
  The values an engine returns: an integer-valued number, or anything else (kept
  opaque). An engine conforms when it agrees with \<open>js_arith\<close> wherever that speaks.
\<close>

datatype 'a js_value = Number int | Other 'a

definition conforms :: "(string \<Rightarrow> 'e + 'a js_value) \<Rightarrow> bool" where
  "conforms Function =
     (\<forall>src. (case js_arith src of
               None \<Rightarrow> True
             | Some (Returns v) \<Rightarrow> Function src = Inr (Number v)
             | Some Throws \<Rightarrow> isl (Function src)))"

text \<open>
  One engine that conforms, as a concrete instance. Where \<open>js_arith\<close> is silent this one
  throws, which is a choice of the instance and not a statement about JavaScript.
\<close>

definition arith_engine :: "string \<Rightarrow> unit + unit js_value" where
  "arith_engine src =
     (case js_arith src of Some (Returns v) \<Rightarrow> Inr (Number v) | _ \<Rightarrow> Inl ())"

section \<open>The chat page: \<open>ChatPage\<close>\<close>

subsection \<open>\<open>String.prototype.trim\<close>\<close>

text \<open>
  A character stands for a UTF-16 code unit below 256. Among these, \<open>trim\<close> removes
  from both ends the white space and line terminators of ECMAScript: tab, line feed,
  vertical tab, form feed, carriage return, space and no-break space.
\<close>

definition is_space :: "char \<Rightarrow> bool" where
  "is_space c = ((of_char c :: nat) \<in> {9, 10, 11, 12, 13, 32, 160})"

definition trim :: "string \<Rightarrow> string" where
  "trim s = rev (dropWhile is_space (rev (dropWhile is_space s)))"

subsection \<open>State\<close>

text \<open>
  The state of the component: what \<open>useChat\<close> holds (\<open>input\<close>, \<open>messages\<close>, and the
  number of requests it has sent to the endpoint), the two \<open>useState\<close> cells, and the
  timeouts that are pending, each by the time in milliseconds at which it fires:
  \<open>cooldownTimer\<close> is the timeout that the effect on \<open>rateLimitCooldown\<close> holds for its
  cleanup, \<open>typingTimers\<close> are the timeouts set by \<open>onSubmit\<close>. \<open>now\<close> is the clock.
  Timeouts fire at the time they are set for.
\<close>

record chat_page =
  input :: string
  messages :: "string list"
  requests :: nat
  isTyping :: bool
  rateLimitCooldown :: int
  cooldownTimer :: "nat option"
  typingTimers :: "nat list"
  now :: nat

definition initial :: chat_page where
  "initial =
     \<lparr>input = [], messages = [], requests = 0, isTyping = False, rateLimitCooldown = 0,
      cooldownTimer = None, typingTimers = [], now = 0\<rparr>"

subsection \<open>The cooldown effect\<close>

text \<open>
  \<open>useEffect(..., [rateLimitCooldown])\<close> runs after a render in which the counter has
  changed: the cleanup of the previous run clears its timeout, and a new timeout of
  1000 ms is set when the counter is positive. \<open>setRateLimitCooldown\<close> with the value the
  counter already has changes nothing and runs no effect.
\<close>

definition cooldown_effect :: "chat_page \<Rightarrow> chat_page" where
  "cooldown_effect s =
     s\<lparr>cooldownTimer := (if rateLimitCooldown s > 0 then Some (now s + 1000) else None)\<rparr>"

definition setRateLimitCooldown :: "int \<Rightarrow> chat_page \<Rightarrow> chat_page" where
  "setRateLimitCooldown v s =
     (if v = rateLimitCooldown s then s else cooldown_effect (s\<lparr>rateLimitCooldown := v\<rparr>))"

subsection \<open>\<open>onSubmit\<close>\<close>

text \<open>
  Modelled from the spec: \<open>handleSubmit\<close> of the chat hook, which is library code. On a
  submission it appends the draft to the conversation, sends the request to the endpoint
  and clears the draft.

  \<open>onSubmit\<close> first calls \<open>e.preventDefault()\<close>, which acts on the event and on nothing
  in the state; the typing timeout is set for 1000 ms after the submission.
\<close>

definition handleSubmit :: "chat_page \<Rightarrow> chat_page" where
  "handleSubmit s =
     s\<lparr>messages := messages s @ [input s], requests := Suc (requests s), input := []\<rparr>"

definition onSubmit :: "chat_page \<Rightarrow> chat_page" where
  "onSubmit s =
     (if trim (input s) = [] \<or> rateLimitCooldown s > 0 then s
      else
        (let s1 = s\<lparr>isTyping := True\<rparr>;
             s2 = handleSubmit s1;
             s3 = setRateLimitCooldown 3 s2
         in s3\<lparr>typingTimers := typingTimers s3 @ [now s3 + 1000]\<rparr>))"

subsection \<open>Time\<close>

text \<open>
  The callback of the cooldown timeout is \<open>setRateLimitCooldown(rateLimitCooldown - 1)\<close>,
  with the counter of the render that set the timeout, which is the current one: every
  change of the counter replaces the timeout. \<open>run_cooldown t\<close> fires the cooldown
  timeouts that are due up to the time \<open>t\<close>, each at its own time.
\<close>

function run_cooldown :: "nat \<Rightarrow> chat_page \<Rightarrow> chat_page" where
  "run_cooldown t s =
     (case cooldownTimer s of
        None \<Rightarrow> s
      | Some d \<Rightarrow>
          if d \<le> t then
            run_cooldown t
              (setRateLimitCooldown (rateLimitCooldown s - 1) (s\<lparr>now := d, cooldownTimer := None\<rparr>))
          else s)"
  by pat_completeness auto
termination
  by (relation "measure (\<lambda>(t, s). case cooldownTimer s of None \<Rightarrow> 0 | Some d \<Rightarrow> Suc t - d)")
     (auto simp: setRateLimitCooldown_def cooldown_effect_def)

declare run_cooldown.simps [simp del]

text \<open>
  The callback of a typing timeout is \<open>setIsTyping(false)\<close>. It writes a cell that the
  cooldown callbacks do not read, so the typing timeouts due are fired together.
\<close>

definition run_typing :: "nat \<Rightarrow> chat_page \<Rightarrow> chat_page" where
  "run_typing t s =
     s\<lparr>isTyping := (if list_ex (\<lambda>d. d \<le> t) (typingTimers s) then False else isTyping s),
       typingTimers := filter (\<lambda>d. t < d) (typingTimers s)\<rparr>"

text \<open>\<open>elapse ms\<close>: \<open>ms\<close> milliseconds pass with no event from the user.\<close>

definition elapse :: "nat \<Rightarrow> chat_page \<Rightarrow> chat_page" where
  "elapse ms s = (let t = now s + ms in (run_typing t (run_cooldown t s))\<lparr>now := t\<rparr>)"

subsection \<open>Events\<close>

text \<open>
  What can happen to the page: the form is submitted, the draft is edited
  (\<open>handleInputChange\<close>), time passes, the chat is cleared (\<open>clearChat\<close> reloads the page,
  which starts the component afresh), and the last turn is retried (\<open>retryLastMessage\<close>;
  modelled from the spec: \<open>reload\<close> of the chat hook sends the request again).
\<close>

datatype event = Submit | Change string | Elapse nat | ClearChat | Retry

fun step :: "event \<Rightarrow> chat_page \<Rightarrow> chat_page" where
  "step Submit s = onSubmit s"
| "step (Change text) s = s\<lparr>input := text\<rparr>"
| "step (Elapse ms) s = elapse ms s"
| "step ClearChat s = initial\<lparr>now := now s\<rparr>"
| "step Retry s = (if messages s \<noteq> [] then s\<lparr>requests := Suc (requests s)\<rparr> else s)"

inductive reachable :: "chat_page \<Rightarrow> bool" where
  start: "reachable initial"
| after: "reachable s \<Longrightarrow> reachable (step e s)"

subsection \<open>The invariant of the cooldown\<close>

text \<open>
  The counter stays between 0 and 3, and the effect holds a timeout exactly while the
  counter is not 0.
\<close>

definition cooldown_inv :: "chat_page \<Rightarrow> bool" where
  "cooldown_inv s =
     (0 \<le> rateLimitCooldown s \<and> rateLimitCooldown s \<le> 3
      \<and> (cooldownTimer s = None) = (rateLimitCooldown s = 0))"

section \<open>Concrete inputs\<close>

text \<open>A provider that answers every conversation with a stream, here the messages themselves.\<close>

definition echo_provider :: "string list \<Rightarrow> thrown + string list" where
  "echo_provider msgs = Inr msgs"

text \<open>A provider that cannot be reached: every call throws an \<open>Error\<close> with a message.\<close>

definition failing_provider :: "string list \<Rightarrow> thrown + string list" where
  "failing_provider msgs = Inl (Readable \<lparr>message = Some ''fetch failed'', status = None\<rparr>)"

section \<open>Properties of the chat endpoint\<close>

subsection \<open>\<open>includes_str\<close> is the substring relation\<close>

lemma startsWith_iff: "startsWith s p \<longleftrightarrow> (\<exists>r. s = p @ r)"
  by (induction s p rule: startsWith.induct) auto

lemma includes_str_iff: "includes_str s p \<longleftrightarrow> (\<exists>l r. s = l @ p @ r)"
proof (induction s)
  case Nil
  then show ?case by simp
next
  case (Cons c cs)
  show ?case
  proof
    assume "includes_str (c # cs) p"
    then consider "startsWith (c # cs) p" | "includes_str cs p" by auto
    then show "\<exists>l r. c # cs = l @ p @ r"
    proof cases
      case 1
      then obtain r where "c # cs = p @ r" by (auto simp: startsWith_iff)
      then have "c # cs = [] @ p @ r" by simp
      then show ?thesis by blast
    next
      case 2
      then obtain l r where "cs = l @ p @ r" using Cons.IH by auto
      then have "c # cs = (c # l) @ p @ r" by simp
      then show ?thesis by blast
    qed
  next
    assume "\<exists>l r. c # cs = l @ p @ r"
    then obtain l r where eq: "c # cs = l @ p @ r" by auto
    show "includes_str (c # cs) p"
    proof (cases l)
      case Nil
      with eq have "startsWith (c # cs) p" by (auto simp: startsWith_iff)
      then show ?thesis by simp
    next
      case (Cons a l')
      with eq have "cs = l' @ p @ r" by simp
      then have "includes_str cs p" using Cons.IH by blast
      then show ?thesis by simp
    qed
  qed
qed

subsection \<open>Failure classification\<close>

text \<open>
  C1. The \<open>catch\<close> block classifies as the ordered reference does: for every upstream
  error with a message \<open>m\<close> and an optional status \<open>st\<close>, the HTTP status, the
  \<open>type\<close> member and the \<open>details\<close> member of the response are those of the first
  rule of the reference that matches (quota or exceeded: 429 \<open>quota_exceeded\<close>; rate
  limit or status 429: 429 \<open>rate_limit\<close>; authentication or status 401: 401
  \<open>auth_error\<close>), and 500 \<open>generic_error\<close> with the raw message as detail when none
  matches.
\<close>

theorem POST_catch_classification:
  "classification_of (POST_catch \<lparr>message = Some m, status = st\<rparr>) =
     (case failure_classification m st of (code, ty, detail) \<Rightarrow> (code, Some ty, detail))"
  by (simp add: classification_of_def POST_catch_def failure_classification_def
      classification_rules_def message_includes_def json_response_def json_member_def)

text \<open>
  C2, as stated, fails. The error that the provider raises when the quota is used up has
  status 429 and a message that contains \<open>quota\<close> and \<open>exceeded\<close> but not
  \<open>rate limit\<close>, so the two substrings are not both present; the first rule matches
  and the type of the response is \<open>quota_exceeded\<close>, not \<open>rate_limit\<close>.
\<close>

theorem rate_limit_counterexample:
  "status \<lparr>message = Some ''You exceeded your current quota, please check your plan and billing details.'',
           status = Some 429\<rparr> = Some 429
   \<and> \<not> message_includes
         \<lparr>message = Some ''You exceeded your current quota, please check your plan and billing details.'',
          status = Some 429\<rparr> ''rate limit''
   \<and> json_member (body (POST_catch
         \<lparr>message = Some ''You exceeded your current quota, please check your plan and billing details.'',
          status = Some 429\<rparr>)) ''type'' = Some ''quota_exceeded''
   \<and> json_member (body (POST_catch
         \<lparr>message = Some ''You exceeded your current quota, please check your plan and billing details.'',
          status = Some 429\<rparr>)) ''type'' \<noteq> Some ''rate_limit''"
  by (simp add: POST_catch_def message_includes_def json_response_def json_member_def)

text \<open>
  C2, amended. For every upstream error whose message contains \<open>rate limit\<close> or whose
  status is 429, the response has HTTP status 429; its type is \<open>rate_limit\<close>, except
  that the first rule takes precedence whenever the message contains \<open>quota\<close> or
  \<open>exceeded\<close>, and the type is then \<open>quota_exceeded\<close>.
\<close>

theorem rate_limit_unless_quota:
  assumes "message_includes error ''rate limit'' \<or> status error = Some 429"
  shows "http_status (POST_catch error) = 429
    \<and> json_member (body (POST_catch error)) ''type'' =
        (if message_includes error ''quota'' \<or> message_includes error ''exceeded''
         then Some ''quota_exceeded'' else Some ''rate_limit'')"
  using assms by (auto simp: POST_catch_def json_response_def json_member_def)

text \<open>C2, witness: the error with message \<open>rate limit reached\<close> and status 429.\<close>

theorem rate_limit_unless_quota_witness:
  "(message_includes \<lparr>message = Some ''rate limit reached'', status = Some 429\<rparr> ''rate limit''
      \<or> status \<lparr>message = Some ''rate limit reached'', status = Some 429\<rparr> = Some 429)
   \<and> http_status (POST_catch \<lparr>message = Some ''rate limit reached'', status = Some 429\<rparr>) = 429
   \<and> json_member (body (POST_catch \<lparr>message = Some ''rate limit reached'', status = Some 429\<rparr>)) ''type''
       = Some ''rate_limit''"
  using rate_limit_unless_quota [of "\<lparr>message = Some ''rate limit reached'', status = Some 429\<rparr>"]
  by (simp add: message_includes_def)

subsection \<open>Missing credential\<close>

text \<open>
  C3, as stated, fails. The body of the request is read before the key is looked at.
  A request whose body is the text \<open>quota\<close> is not JSON; the error that \<open>req.json()\<close>
  throws quotes the text, the \<open>catch\<close> block finds \<open>quota\<close> in it, and the response
  has status 429 although no key is configured.
\<close>

theorem missing_key_counterexample:
  \<open>fst (POST None
          (Inl \<lparr>message = Some ''Unexpected token 'q', "quota" is not valid JSON'', status = None\<rparr>)
          echo_provider)
     = Json (POST_catch \<lparr>message = Some ''Unexpected token 'q', "quota" is not valid JSON'', status = None\<rparr>)
   \<and> http_status (POST_catch \<lparr>message = Some ''Unexpected token 'q', "quota" is not valid JSON'', status = None\<rparr>)
     = 429\<close>
  by (simp add: POST_def catch_block_def POST_catch_def message_includes_def json_response_def)

text \<open>
  C3, amended. If no key is configured (the variable is unset or empty), no call of the
  endpoint calls the provider; a call whose body is read successfully is answered with
  status 500 and the message that the key is not configured; a call whose body cannot
  be read is answered by the \<open>catch\<close> block from the error of the read.
\<close>

theorem missing_key_no_network_call:
  assumes "api_key = None \<or> api_key = Some []"
  shows "network_calls (snd (POST api_key req_json streamText)) = []
    \<and> (case req_json of
          Inr msgs \<Rightarrow>
            POST api_key req_json streamText =
              (Json (json_response
                 [(''error'', Some ''API key not configured. Please add your Google Gemini API key to environment variables.'')]
                 500), [])
        | Inl error \<Rightarrow>
            POST api_key req_json streamText =
              (Json (POST_catch error), [ConsoleError (Readable error)]))"
  using assms by (auto simp: POST_def catch_block_def split: sum.splits)

text \<open>C3, witness: no key, a conversation of one message.\<close>

theorem missing_key_no_network_call_witness:
  "network_calls (snd (POST None (Inr [''hello'']) echo_provider)) = []
   \<and> POST None (Inr [''hello'']) echo_provider =
       (Json \<lparr>body = [(''error'', ''API key not configured. Please add your Google Gemini API key to environment variables.'')],
              http_status = 500,
              headers = [(''Content-Type'', ''application/json'')]\<rparr>, [])"
  using missing_key_no_network_call
    [where api_key = None and req_json = "Inr [''hello'']" and streamText = echo_provider]
  by (simp add: json_response_def)

subsection \<open>The generic error\<close>




subsection \<open>Every failure is answered\<close>

text \<open>
  C7, as stated, fails. With no key configured and a body that is read, the response is
  the JSON error object with status 500, and this object has no \<open>type\<close> member.
\<close>

theorem typed_error_counterexample:
  "POST None (Inr [''hello'']) echo_provider =
     (Json \<lparr>body = [(''error'', ''API key not configured. Please add your Google Gemini API key to environment variables.'')],
            http_status = 500,
            headers = [(''Content-Type'', ''application/json'')]\<rparr>, [])
   \<and> json_member
        [(''error'', ''API key not configured. Please add your Google Gemini API key to environment variables.'')]
        ''type'' = None"
  by (simp add: POST_def json_response_def json_member_def)

lemma POST_catch_structured:
  "http_status (POST_catch error) \<in> {401, 429, 500}
   \<and> json_member (body (POST_catch error)) ''error'' \<noteq> None
   \<and> json_member (body (POST_catch error)) ''type''
       \<in> {Some ''quota_exceeded'', Some ''rate_limit'', Some ''auth_error'', Some ''generic_error''}"
  by (cases "message error") (auto simp: POST_catch_def json_response_def json_member_def)

text \<open>
  The \<open>catch\<close> block does not answer every value: when the provider call throws
  \<open>null\<close> or \<open>undefined\<close>, or a value whose message it cannot test, the block throws
  in its turn, after it has logged the value, and the handler rejects.
\<close>

lemma POST_rejects:
  assumes "api_key \<noteq> None" "api_key \<noteq> Some []"
    and "streamText msgs = Inl Nullish \<or> streamText msgs = Inl Unreadable"
  shows "fst (POST api_key (Inr msgs) streamText) = Rejects"
  using assms by (auto simp: POST_def catch_block_def)

text \<open>
  C7, amended. Whenever something fails before the handler returns its response, and
  what was thrown is a value the \<open>catch\<close> block can test (the body cannot be read, no
  key is configured, or the provider call throws a value whose message is a string or
  is absent), the handler returns a JSON error object with an \<open>error\<close> member and a
  status among 401, 429 and 500. On the missing-credential path the object carries no
  \<open>type\<close>; on every other path, which is the \<open>catch\<close> block, it carries one of the four
  types.
\<close>

theorem POST_failure_structured:
  assumes "case req_json of
             Inl error \<Rightarrow> True
           | Inr msgs \<Rightarrow>
               api_key = None \<or> api_key = Some []
               \<or> (\<exists>error. streamText msgs = Inl (Readable error))"
  shows "\<exists>r. fst (POST api_key req_json streamText) = Json r
    \<and> http_status r \<in> {401, 429, 500}
    \<and> json_member (body r) ''error'' \<noteq> None
    \<and> (if (\<exists>msgs. req_json = Inr msgs) \<and> (api_key = None \<or> api_key = Some [])
        then json_member (body r) ''type'' = None
        else json_member (body r) ''type''
             \<in> {Some ''quota_exceeded'', Some ''rate_limit'', Some ''auth_error'', Some ''generic_error''})"
proof (cases req_json)
  case (Inl error)
  then show ?thesis
    using POST_catch_structured [of error] by (simp add: POST_def catch_block_def)
next
  case (Inr msgs)
  show ?thesis
  proof (cases "api_key = None \<or> api_key = Some []")
    case True
    with Inr show ?thesis by (auto simp: POST_def json_response_def json_member_def)
  next
    case False
    with Inr assms obtain error where "streamText msgs = Inl (Readable error)"
      by auto
    with Inr False show ?thesis
      using POST_catch_structured [of error] by (auto simp: POST_def catch_block_def)
  qed
qed

text \<open>
  C7, witness: a key is configured, the body is read and the provider call throws an
  \<open>Error\<close>; the answer is 500 with type \<open>generic_error\<close>.
\<close>

theorem POST_failure_structured_witness:
  "failing_provider [''hello''] = Inl (Readable \<lparr>message = Some ''fetch failed'', status = None\<rparr>)
   \<and> (\<exists>r. fst (POST (Some ''key'') (Inr [''hello'']) failing_provider) = Json r
      \<and> http_status r \<in> {401, 429, 500}
      \<and> json_member (body r) ''error'' \<noteq> None
      \<and> json_member (body r) ''type''
           \<in> {Some ''quota_exceeded'', Some ''rate_limit'', Some ''auth_error'', Some ''generic_error''})"
  using POST_failure_structured
    [where req_json = "Inr [''hello'']" and api_key = "Some ''key''"
       and streamText = failing_provider]
  by (simp add: failing_provider_def)

section \<open>Properties of the tools\<close>

subsection \<open>\<open>weather\<close>\<close>

lemma frac_bits_eq:
  assumes "2 ^ 52 / 2 ^ K \<le> x" "x < 2 * 2 ^ 52 / 2 ^ K" "k \<le> K" "K \<le> k + n"
  shows "frac_bits n k x = K"
  using assms(3,4)
proof (induction n arbitrary: k)
  case 0
  then show ?case by simp
next
  case (Suc n)
  show ?case
  proof (cases "k = K")
    case True
    then show ?thesis using assms(1) by simp
  next
    case False
    then have "Suc k \<le> K" using Suc.prems(1) by simp
    then have "(2::real) ^ Suc k \<le> 2 ^ K" by (intro power_increasing) simp_all
    then have "2 * (2::real) ^ 52 / 2 ^ K \<le> 2 * 2 ^ 52 / 2 ^ Suc k"
      by (intro divide_left_mono) simp_all
    then have "x < 2 ^ 52 / 2 ^ k" using assms(2) by simp
    then have "\<not> 2 ^ 52 / 2 ^ k \<le> x" by simp
    moreover have "frac_bits n (Suc k) x = K"
      using \<open>Suc k \<le> K\<close> Suc.prems(2) by (intro Suc.IH) simp_all
    ultimately show ?thesis by simp
  qed
qed

lemma round_ties_even_of_int: "round_ties_even (of_int N) = N"
  by (simp add: round_ties_even_def)

lemma round_ties_even_le: "q \<le> of_int b \<Longrightarrow> round_ties_even q \<le> b"
proof -
  assume q: "q \<le> of_int b"
  have f: "\<lfloor>q\<rfloor> \<le> b" using q by (simp add: floor_le_iff)
  show ?thesis
  proof (cases "q = of_int \<lfloor>q\<rfloor>")
    case True
    then have "q - of_int \<lfloor>q\<rfloor> < 1 / 2" by simp
    then show ?thesis using f by (simp add: round_ties_even_def)
  next
    case False
    then have "of_int \<lfloor>q\<rfloor> < q" using of_int_floor_le [of q] by (auto simp: less_le)
    then have "of_int \<lfloor>q\<rfloor> < (of_int b :: real)" using q by simp
    then have "\<lfloor>q\<rfloor> < b" by simp
    then show ?thesis using f by (simp add: round_ties_even_def)
  qed
qed

lemma round_ties_even_ge: "of_int a \<le> q \<Longrightarrow> a \<le> round_ties_even q"
proof -
  assume "of_int a \<le> q"
  then have "a \<le> \<lfloor>q\<rfloor>" by (simp add: le_floor_iff)
  then show ?thesis by (simp add: round_ties_even_def)
qed

lemma binary64_round_grid:
  "binary64_round x =
     of_int (round_ties_even (x * 2 ^ frac_bits 1028 46 x)) / 2 ^ frac_bits 1028 46 x"
  by (simp add: binary64_round_def ulp_def)

lemma binary64_round_le_grid:
  assumes "x \<le> of_int b / 2 ^ frac_bits 1028 46 x"
  shows "binary64_round x \<le> of_int b / 2 ^ frac_bits 1028 46 x"
proof -
  let ?K = "frac_bits 1028 46 x"
  have "x * 2 ^ ?K \<le> of_int b" using assms by (simp add: field_simps)
  then have "round_ties_even (x * 2 ^ ?K) \<le> b" by (rule round_ties_even_le)
  then have "(of_int (round_ties_even (x * 2 ^ ?K)) :: real) \<le> of_int b" by simp
  then show ?thesis unfolding binary64_round_grid by (simp add: divide_right_mono)
qed

lemma binary64_round_ge_grid:
  assumes "of_int a / 2 ^ frac_bits 1028 46 x \<le> x"
  shows "of_int a / 2 ^ frac_bits 1028 46 x \<le> binary64_round x"
proof -
  let ?K = "frac_bits 1028 46 x"
  have "of_int a \<le> x * 2 ^ ?K" using assms by (simp add: field_simps)
  then have "a \<le> round_ties_even (x * 2 ^ ?K)" by (rule round_ties_even_ge)
  then have "(of_int a :: real) \<le> of_int (round_ties_even (x * 2 ^ ?K))" by simp
  then show ?thesis unfolding binary64_round_grid by (simp add: divide_right_mono)
qed

lemma binary64_round_le_int: "x \<le> of_int b \<Longrightarrow> binary64_round x \<le> of_int b"
  using binary64_round_le_grid [of x "b * 2 ^ frac_bits 1028 46 x"] by simp

lemma binary64_round_ge_int: "of_int a \<le> x \<Longrightarrow> of_int a \<le> binary64_round x"
  using binary64_round_ge_grid [of "a * 2 ^ frac_bits 1028 46 x" x] by simp

lemma temperature_bounds:
  assumes "0 \<le> r" "r < 1"
  shows "32 \<le> Math_round (binary64_round (binary64_round (r * (90 - 32)) + 32))"
    and "Math_round (binary64_round (binary64_round (r * (90 - 32)) + 32)) \<le> 90"
proof -
  let ?p = "binary64_round (r * (90 - 32))"
  have "of_int 0 \<le> r * (90 - 32)" "r * (90 - 32) \<le> of_int 58" using assms by simp_all
  then have "of_int 0 \<le> ?p" "?p \<le> of_int 58"
    by (simp_all only: binary64_round_ge_int binary64_round_le_int)
  then have "of_int 32 \<le> ?p + 32" "?p + 32 \<le> of_int 90" by simp_all
  then have s: "of_int 32 \<le> binary64_round (?p + 32)" "binary64_round (?p + 32) \<le> of_int 90"
    by (simp_all only: binary64_round_ge_int binary64_round_le_int)
  from s(1) have "(32::real) \<le> binary64_round (?p + 32) + 1 / 2" by simp
  then show "32 \<le> Math_round (binary64_round (?p + 32))"
    unfolding Math_round_def by (simp add: le_floor_iff)
  from s(2) have "binary64_round (?p + 32) + 1 / 2 < 91" by simp
  then have "\<lfloor>binary64_round (?p + 32) + 1 / 2\<rfloor> < 91" by (simp add: floor_less_iff)
  then show "Math_round (binary64_round (?p + 32)) \<le> 90"
    unfolding Math_round_def by simp
qed

lemma index_bounds:
  assumes "binary64 r" "0 \<le> r" "r < 1"
  shows "0 \<le> Math_floor (binary64_round (r * 4))" "Math_floor (binary64_round (r * 4)) < 4"
proof -
  have "of_int 0 \<le> r * 4" using assms(2) by simp
  then have "of_int 0 \<le> binary64_round (r * 4)" by (rule binary64_round_ge_int)
  then show "0 \<le> Math_floor (binary64_round (r * 4))" by (simp add: Math_floor_def)
  have "binary64_round (r * 4) < 4"
  proof (cases "r < 1 / 2")
    case True
    then have "r * 4 \<le> of_int 2" by simp
    then have "binary64_round (r * 4) \<le> of_int 2" by (rule binary64_round_le_int)
    then show ?thesis by simp
  next
    case False
    have Kr: "frac_bits 1028 46 r = 53"
      using False assms(3) by (intro frac_bits_eq) simp_all
    have Kx: "frac_bits 1028 46 (r * 4) = 51"
      using False assms(3) by (intro frac_bits_eq) simp_all
    let ?N = "round_ties_even (r * 2 ^ 53)"
    have r: "r = of_int ?N / 2 ^ 53"
      using assms(1) unfolding binary64_def binary64_round_grid Kr by simp
    have "r * 4 * 2 ^ 51 = of_int ?N" by (subst r) simp
    then have "binary64_round (r * 4) = of_int ?N / 2 ^ 51"
      unfolding binary64_round_grid Kx by (simp only: round_ties_even_of_int)
    also have "\<dots> = r * 4" by (subst (2) r) simp
    finally show ?thesis using assms(3) by simp
  qed
  then show "Math_floor (binary64_round (r * 4)) < 4" by (simp add: Math_floor_def floor_less_iff)
qed

lemma random_examples:
  "binary64 (4969489243994995 / 2 ^ 59)" "binary64 (1 - 1 / 2 ^ 53)"
  "temperature (weather (4969489243994995 / 2 ^ 59) (1 - 1 / 2 ^ 53) ''Tokyo'') = 33"
  "description (weather (4969489243994995 / 2 ^ 59) (1 - 1 / 2 ^ 53) ''Tokyo'') = Some ''snowy''"
  by code_simp+

text \<open>
  C5. For all values that the two calls of \<open>Math.random()\<close> can give, binary64 numbers
  in \<open>[0, 1)\<close>, and with the arithmetic of binary64 numbers, the temperature of the
  report is an integer between 32 and 90, both included, and the description is one of
  \<open>sunny\<close>, \<open>cloudy\<close>, \<open>rainy\<close>, \<open>snowy\<close>. (The bounds on the temperature hold of
  every real in \<open>[0, 1)\<close>; the description needs the random value to be a binary64
  number, since a real closer to 1 than any of them would round to the index 4.)
\<close>

theorem weather_range:
  assumes "binary64 random1" "0 \<le> random1" "random1 < 1"
    and "binary64 random2" "0 \<le> random2" "random2 < 1"
  shows "32 \<le> temperature (weather random1 random2 loc)
    \<and> temperature (weather random1 random2 loc) \<le> 90
    \<and> description (weather random1 random2 loc)
        \<in> {Some ''sunny'', Some ''cloudy'', Some ''rainy'', Some ''snowy''}"
proof -
  have "\<And>i::int. 0 \<le> i \<Longrightarrow> i < 4 \<Longrightarrow> i \<in> {0, 1, 2, 3}" by (simp, arith)
  then have "Math_floor (binary64_round (random2 * 4)) \<in> {0, 1, 2, 3}"
    using index_bounds [OF assms(4,5,6)] by blast
  then have "array_at [''sunny'', ''cloudy'', ''rainy'', ''snowy'']
               (Math_floor (binary64_round (random2 * 4)))
        \<in> {Some ''sunny'', Some ''cloudy'', Some ''rainy'', Some ''snowy''}"
    by (auto simp: array_at_def)
  then show ?thesis
    using temperature_bounds [OF assms(2,3)] by (simp add: weather_def)
qed

text \<open>
  C5, witness: two binary64 numbers at the edges. The first makes the sum exactly 32.5,
  which \<open>Math.round\<close> takes to 33; the second is the largest number below 1, and its
  index is 3.
\<close>

theorem weather_range_witness:
  "binary64 (4969489243994995 / 2 ^ 59) \<and> binary64 (1 - 1 / 2 ^ 53)
   \<and> temperature (weather (4969489243994995 / 2 ^ 59) (1 - 1 / 2 ^ 53) ''Tokyo'') = 33
   \<and> description (weather (4969489243994995 / 2 ^ 59) (1 - 1 / 2 ^ 53) ''Tokyo'') = Some ''snowy''
   \<and> 32 \<le> temperature (weather (4969489243994995 / 2 ^ 59) (1 - 1 / 2 ^ 53) ''Tokyo'')
   \<and> temperature (weather (4969489243994995 / 2 ^ 59) (1 - 1 / 2 ^ 53) ''Tokyo'') \<le> 90"
  using weather_range [of "4969489243994995 / 2 ^ 59" "1 - 1 / 2 ^ 53" "''Tokyo''"]
    random_examples
  by simp

subsection \<open>\<open>calculator\<close>\<close>

lemma conforms_arith_engine: "conforms arith_engine"
  by (simp add: conforms_def arith_engine_def split: option.splits outcome.splits)

lemma js_arith_product: "js_arith (function_body ''15 * 24'') = Some (Returns 360)"
  by code_simp

lemma js_arith_dangling: "js_arith (function_body ''1 +'') = Some Throws"
  by code_simp

text \<open>
  C4. With an engine that conforms to JavaScript on integer arithmetic, the calculator
  answers \<open>{ result: 360 }\<close> to \<open>15 * 24\<close> and
  \<open>{ error: "Invalid mathematical expression" }\<close> to the malformed \<open>1 +\<close>. For every
  expression whose evaluation throws, it answers that same error; and for every
  expression whatsoever its answer is a result or that error, so nothing thrown by the
  evaluation leaves the tool.
\<close>

theorem calculator_contract:
  assumes "conforms Function"
  shows "calculator Function ''15 * 24'' = Result (Number 360)
    \<and> calculator Function ''1 +'' = Error ''Invalid mathematical expression''
    \<and> (\<forall>expression.
          isl (Function (function_body expression)) \<longrightarrow>
          calculator Function expression = Error ''Invalid mathematical expression'')
    \<and> (\<forall>expression.
          case Function (function_body expression) of
            Inl error \<Rightarrow> calculator Function expression = Error ''Invalid mathematical expression''
          | Inr result \<Rightarrow> calculator Function expression = Result result)"
proof -
  have "Function (function_body ''15 * 24'') = Inr (Number 360)"
    using assms [unfolded conforms_def, rule_format, of "function_body ''15 * 24''"]
    by (simp add: js_arith_product)
  moreover have "isl (Function (function_body ''1 +''))"
    using assms [unfolded conforms_def, rule_format, of "function_body ''1 +''"]
    by (simp add: js_arith_dangling)
  ultimately show ?thesis
    by (auto simp: calculator_def split: sum.splits)
qed

text \<open>C4, witness: the engine \<open>arith_engine\<close>, which conforms.\<close>

theorem calculator_contract_witness:
  "conforms arith_engine
   \<and> calculator arith_engine ''15 * 24'' = Result (Number 360)
   \<and> calculator arith_engine ''1 +'' = Error ''Invalid mathematical expression''"
  using calculator_contract [OF conforms_arith_engine] conforms_arith_engine by simp

section \<open>Properties of the chat page\<close>

subsection \<open>The submission guard\<close>

lemma trim_empty_iff: "trim s = [] \<longleftrightarrow> list_all is_space s"
proof
  assume "trim s = []"
  then have "dropWhile is_space (rev (dropWhile is_space s)) = []" by (simp add: trim_def)
  then have "\<forall>c \<in> set (dropWhile is_space s). is_space c" by (simp add: dropWhile_eq_Nil_conv)
  then have "dropWhile is_space s = []"
    by (metis hd_dropWhile list.set_sel(1))
  then show "list_all is_space s" by (simp add: dropWhile_eq_Nil_conv list_all_iff)
next
  assume "list_all is_space s"
  then have e: "dropWhile is_space s = []" by (simp add: dropWhile_eq_Nil_conv list_all_iff)
  show "trim s = []" unfolding trim_def e by simp
qed

lemma onSubmit_rejected:
  "trim (input s) = [] \<or> rateLimitCooldown s > 0 \<Longrightarrow> onSubmit s = s"
  by (simp add: onSubmit_def)

text \<open>
  C8. In every state in which the draft is empty or consists of white space only, or in
  which the cooldown counter is greater than 0, \<open>onSubmit\<close> returns the state it was
  given: the draft is unchanged, no request is sent, and nothing else changes.
\<close>

theorem onSubmit_guard:
  assumes "list_all is_space (input s) \<or> rateLimitCooldown s > 0"
  shows "onSubmit s = s"
  using assms by (simp add: onSubmit_def trim_empty_iff)

text \<open>
  C8, witness: the draft \<open>hello\<close> during a cooldown of 2, and a draft of two spaces
  with no cooldown.
\<close>

theorem onSubmit_guard_witness:
  "(list_all is_space (input (initial\<lparr>input := ''hello'', rateLimitCooldown := 2\<rparr>))
      \<or> rateLimitCooldown (initial\<lparr>input := ''hello'', rateLimitCooldown := 2\<rparr>) > 0)
   \<and> list_all is_space (input (initial\<lparr>input := ''  ''\<rparr>))
   \<and> onSubmit (initial\<lparr>input := ''hello'', rateLimitCooldown := 2\<rparr>)
       = initial\<lparr>input := ''hello'', rateLimitCooldown := 2\<rparr>
   \<and> onSubmit (initial\<lparr>input := ''  ''\<rparr>) = initial\<lparr>input := ''  ''\<rparr>"
  using onSubmit_guard [of "initial\<lparr>input := ''hello'', rateLimitCooldown := 2\<rparr>"]
    onSubmit_guard [of "initial\<lparr>input := ''  ''\<rparr>"]
  by (simp add: initial_def is_space_def)

subsection \<open>The countdown\<close>

lemma onSubmit_accepted:
  assumes "trim (input s) \<noteq> []" "\<not> rateLimitCooldown s > 0"
  shows "onSubmit s =
    s\<lparr>input := [], messages := messages s @ [input s], requests := Suc (requests s),
      isTyping := True, rateLimitCooldown := 3, cooldownTimer := Some (now s + 1000),
      typingTimers := typingTimers s @ [now s + 1000]\<rparr>"
  using assms
  by (simp add: onSubmit_def handleSubmit_def setRateLimitCooldown_def cooldown_effect_def Let_def)

lemma run_cooldown_idle:
  "cooldownTimer s = None \<Longrightarrow> run_cooldown t s = s"
  by (subst run_cooldown.simps) simp

lemma run_cooldown_early:
  "cooldownTimer s = Some d \<Longrightarrow> t < d \<Longrightarrow> run_cooldown t s = s"
  by (subst run_cooldown.simps) simp

lemma run_cooldown_due:
  "cooldownTimer s = Some d \<Longrightarrow> d \<le> t \<Longrightarrow>
   run_cooldown t s =
   run_cooldown t (s\<lparr>now := d, rateLimitCooldown := rateLimitCooldown s - 1,
     cooldownTimer := (if rateLimitCooldown s - 1 > 0 then Some (d + 1000) else None)\<rparr>)"
  by (subst run_cooldown.simps) (simp add: setRateLimitCooldown_def cooldown_effect_def)

lemma countdown_1:
  assumes "rateLimitCooldown u = 1" "cooldownTimer u = Some d"
  shows "rateLimitCooldown (run_cooldown t u) = (if t < d then 1 else 0)"
proof (cases "t < d")
  case True
  then show ?thesis using assms by (simp add: run_cooldown_early)
next
  case False
  then show ?thesis using assms by (simp add: run_cooldown_due run_cooldown_idle)
qed

lemma countdown_2:
  assumes "rateLimitCooldown u = 2" "cooldownTimer u = Some d"
  shows "rateLimitCooldown (run_cooldown t u) =
    (if t < d then 2 else if t < d + 1000 then 1 else 0)"
proof (cases "t < d")
  case True
  then show ?thesis using assms by (simp add: run_cooldown_early)
next
  case False
  then show ?thesis using assms by (simp add: run_cooldown_due countdown_1)
qed

lemma countdown_3:
  assumes "rateLimitCooldown u = 3" "cooldownTimer u = Some d"
  shows "rateLimitCooldown (run_cooldown t u) =
    (if t < d then 3 else if t < d + 1000 then 2 else if t < d + 2000 then 1 else 0)"
proof (cases "t < d")
  case True
  then show ?thesis using assms by (simp add: run_cooldown_early)
next
  case False
  then show ?thesis using assms by (simp add: run_cooldown_due countdown_2)
qed

lemma elapse_cooldown:
  "rateLimitCooldown (elapse ms s) = rateLimitCooldown (run_cooldown (now s + ms) s)"
  by (simp add: elapse_def run_typing_def Let_def)

lemma countdown_after_submit:
  assumes "trim (input s) \<noteq> []" "\<not> rateLimitCooldown s > 0"
  shows "rateLimitCooldown (elapse ms (onSubmit s)) =
    (if ms < 1000 then 3 else if ms < 2000 then 2 else if ms < 3000 then 1 else 0)"
proof -
  let ?u = "onSubmit s"
  have u: "rateLimitCooldown ?u = 3" "cooldownTimer ?u = Some (now s + 1000)" "now ?u = now s"
    using assms by (simp_all add: onSubmit_accepted)
  show ?thesis
    unfolding elapse_cooldown u(3) countdown_3 [OF u(1,2)] by simp
qed

text \<open>
  C9. After a submission that is accepted, the counter is 3. With no further event it is
  3 during the first second, 2 during the second, 1 during the third, and 0 from 3000 ms
  on: one decrement by 1 each second. While fewer than 3000 ms have passed, and the
  counter is therefore greater than 0, \<open>onSubmit\<close> changes nothing whatever the draft;
  from 3000 ms on a draft that is not blank is submitted.
\<close>

theorem cooldown_countdown:
  assumes "trim (input s) \<noteq> []" "\<not> rateLimitCooldown s > 0"
  shows "rateLimitCooldown (onSubmit s) = 3
    \<and> (\<forall>ms. rateLimitCooldown (elapse ms (onSubmit s)) =
          (if ms < 1000 then 3 else if ms < 2000 then 2 else if ms < 3000 then 1 else 0))
    \<and> (\<forall>ms draft. ms < 3000 \<longrightarrow>
          onSubmit ((elapse ms (onSubmit s))\<lparr>input := draft\<rparr>)
            = (elapse ms (onSubmit s))\<lparr>input := draft\<rparr>)
    \<and> (\<forall>ms draft. 3000 \<le> ms \<and> trim draft \<noteq> [] \<longrightarrow>
          requests (onSubmit ((elapse ms (onSubmit s))\<lparr>input := draft\<rparr>))
            = Suc (requests ((elapse ms (onSubmit s))\<lparr>input := draft\<rparr>)))"
proof (intro conjI allI impI)
  show "rateLimitCooldown (onSubmit s) = 3"
    using assms by (simp add: onSubmit_accepted)
next
  fix ms
  show "rateLimitCooldown (elapse ms (onSubmit s)) =
          (if ms < 1000 then 3 else if ms < 2000 then 2 else if ms < 3000 then 1 else 0)"
    by (rule countdown_after_submit [OF assms])
next
  fix ms :: nat and draft
  assume "ms < 3000"
  then have "rateLimitCooldown ((elapse ms (onSubmit s))\<lparr>input := draft\<rparr>) > 0"
    by (simp add: countdown_after_submit [OF assms])
  then show "onSubmit ((elapse ms (onSubmit s))\<lparr>input := draft\<rparr>)
            = (elapse ms (onSubmit s))\<lparr>input := draft\<rparr>"
    by (simp add: onSubmit_rejected)
next
  fix ms :: nat and draft
  assume a: "3000 \<le> ms \<and> trim draft \<noteq> []"
  let ?y = "(elapse ms (onSubmit s))\<lparr>input := draft\<rparr>"
  have "rateLimitCooldown ?y = 0" using a by (simp add: countdown_after_submit [OF assms])
  moreover have "trim (input ?y) \<noteq> []" using a by simp
  ultimately show "requests (onSubmit ?y) = Suc (requests ?y)"
    by (simp add: onSubmit_accepted)
qed

text \<open>C9, witness: the draft \<open>hello\<close> submitted on the page as it starts.\<close>

theorem cooldown_countdown_witness:
  "trim (input (initial\<lparr>input := ''hello''\<rparr>)) \<noteq> []
   \<and> \<not> rateLimitCooldown (initial\<lparr>input := ''hello''\<rparr>) > 0
   \<and> rateLimitCooldown (onSubmit (initial\<lparr>input := ''hello''\<rparr>)) = 3
   \<and> rateLimitCooldown (elapse 999 (onSubmit (initial\<lparr>input := ''hello''\<rparr>))) = 3
   \<and> rateLimitCooldown (elapse 1000 (onSubmit (initial\<lparr>input := ''hello''\<rparr>))) = 2
   \<and> rateLimitCooldown (elapse 2000 (onSubmit (initial\<lparr>input := ''hello''\<rparr>))) = 1
   \<and> rateLimitCooldown (elapse 2999 (onSubmit (initial\<lparr>input := ''hello''\<rparr>))) = 1
   \<and> rateLimitCooldown (elapse 3000 (onSubmit (initial\<lparr>input := ''hello''\<rparr>))) = 0"
proof -
  have h: "trim (input (initial\<lparr>input := ''hello''\<rparr>)) \<noteq> []"
    "\<not> rateLimitCooldown (initial\<lparr>input := ''hello''\<rparr>) > 0"
    by (simp_all add: initial_def trim_def is_space_def)
  show ?thesis using h cooldown_countdown [OF h] by simp
qed

subsection \<open>The counter is never negative\<close>

lemma cooldown_inv_run_cooldown: "cooldown_inv s \<Longrightarrow> cooldown_inv (run_cooldown t s)"
proof (induction t s rule: run_cooldown.induct)
  case (1 t s)
  show ?case
  proof (cases "cooldownTimer s")
    case None
    then show ?thesis using "1.prems" by (simp add: run_cooldown_idle)
  next
    case (Some d)
    show ?thesis
    proof (cases "d \<le> t")
      case True
      let ?s' = "setRateLimitCooldown (rateLimitCooldown s - 1) (s\<lparr>now := d, cooldownTimer := None\<rparr>)"
      have "cooldown_inv ?s'"
        using "1.prems" Some
        by (auto simp: cooldown_inv_def setRateLimitCooldown_def cooldown_effect_def)
      then have "cooldown_inv (run_cooldown t ?s')"
        using "1.IH" [OF Some True] by simp
      moreover have "run_cooldown t s = run_cooldown t ?s'"
        using Some True by (subst run_cooldown.simps) simp
      ultimately show ?thesis by simp
    next
      case False
      then show ?thesis using "1.prems" Some by (simp add: run_cooldown_early)
    qed
  qed
qed

lemma cooldown_inv_elapse: "cooldown_inv s \<Longrightarrow> cooldown_inv (elapse ms s)"
proof -
  assume "cooldown_inv s"
  then have "cooldown_inv (run_cooldown (now s + ms) s)" by (rule cooldown_inv_run_cooldown)
  then show ?thesis by (simp add: cooldown_inv_def elapse_def run_typing_def Let_def)
qed

lemma cooldown_inv_onSubmit: "cooldown_inv s \<Longrightarrow> cooldown_inv (onSubmit s)"
  by (auto simp: cooldown_inv_def onSubmit_def handleSubmit_def setRateLimitCooldown_def
      cooldown_effect_def Let_def)

lemma cooldown_inv_step: "cooldown_inv s \<Longrightarrow> cooldown_inv (step e s)"
proof (cases e)
  case Submit
  assume "cooldown_inv s" then show ?thesis using Submit by (simp add: cooldown_inv_onSubmit)
next
  case (Change x)
  assume "cooldown_inv s" then show ?thesis using Change by (simp add: cooldown_inv_def)
next
  case (Elapse ms)
  assume "cooldown_inv s" then show ?thesis using Elapse by (simp add: cooldown_inv_elapse)
next
  case ClearChat
  then show ?thesis by (simp add: cooldown_inv_def initial_def)
next
  case Retry
  assume "cooldown_inv s" then show ?thesis using Retry by (simp add: cooldown_inv_def)
qed

lemma reachable_cooldown_inv: "reachable s \<Longrightarrow> cooldown_inv s"
proof (induction rule: reachable.induct)
  case start
  show ?case by (simp add: cooldown_inv_def initial_def)
next
  case (after s e)
  then show ?case by (simp add: cooldown_inv_step)
qed

text \<open>
  C10. In every state that the page can reach from its initial state, by submissions,
  edits of the draft, passing time, clearing and retrying, the cooldown counter is not
  negative (and at most 3), and the timeout that decrements it is pending only while the
  counter is greater than 0.
\<close>

theorem cooldown_nonnegative:
  assumes "reachable s"
  shows "0 \<le> rateLimitCooldown s \<and> rateLimitCooldown s \<le> 3
    \<and> (cooldownTimer s \<noteq> None \<longrightarrow> 0 < rateLimitCooldown s)"
  using reachable_cooldown_inv [OF assms] by (auto simp: cooldown_inv_def)

text \<open>
  C10, witness: the state reached by typing \<open>hello\<close>, submitting and waiting 1500 ms,
  where the counter is 2.
\<close>

theorem cooldown_nonnegative_witness:
  "reachable (step (Elapse 1500) (step Submit (step (Change ''hello'') initial)))
   \<and> rateLimitCooldown (step (Elapse 1500) (step Submit (step (Change ''hello'') initial))) = 2
   \<and> 0 \<le> rateLimitCooldown (step (Elapse 1500) (step Submit (step (Change ''hello'') initial)))"
proof -
  have r: "reachable (step (Elapse 1500) (step Submit (step (Change ''hello'') initial)))"
    by (intro reachable.after reachable.start)
  have t: "trim (input (initial\<lparr>input := ''hello''\<rparr>)) \<noteq> []"
    "\<not> rateLimitCooldown (initial\<lparr>input := ''hello''\<rparr>) > 0"
    by (simp_all add: initial_def trim_def is_space_def)
  have "rateLimitCooldown (step (Elapse 1500) (step Submit (step (Change ''hello'') initial))) = 2"
    using countdown_after_submit [OF t, of 1500] by simp
  then show ?thesis using r cooldown_nonnegative [OF r] by simp
qed

end
